theory Spec2Isabelle
  imports Main "HOL-Library.Word"
begin

unbundle bit_operations_syntax

section \<open>The ivshmem device model of devicemodel/hw/pci/ivshmem.c\<close>

text \<open>
  The file emulates the ivshmem-v1 PCI device of the ACRN device model. Its five
  functions are embedded one to one:
  \<^item> \<open>create_shared_memory\<close> (lines 73-131),
  \<^item> \<open>pci_ivshmem_write\<close> (lines 133-159),
  \<^item> \<open>pci_ivshmem_read\<close> (lines 161-207),
  \<^item> \<open>pci_ivshmem_init\<close> (lines 209-279),
  \<^item> \<open>pci_ivshmem_deinit\<close> (lines 281-306).

  C types: \<open>uint32_t\<close> is \<open>32 word\<close>, \<open>uint64_t\<close> and pointers are \<open>64 word\<close>
  (\<open>NULL\<close> is 0), \<open>int\<close> (descriptors, return codes, the BAR index, the access
  width) is \<open>int\<close>: the code only compares these with constants, nothing is computed
  that could overflow. A \<open>char *\<close> that may be \<open>NULL\<close> is a \<open>string option\<close>.
\<close>

type_synonym u32 = "32 word"
type_synonym u64 = "64 word"

subsection \<open>Constants (lines 48-63)\<close>

definition IVSHMEM_MMIO_BAR :: int where "IVSHMEM_MMIO_BAR = 0"
definition IVSHMEM_MEM_BAR :: int where "IVSHMEM_MEM_BAR = 2"

definition IVSHMEM_VENDOR_ID :: "16 word" where "IVSHMEM_VENDOR_ID = 0x1af4"
definition IVSHMEM_DEVICE_ID :: "16 word" where "IVSHMEM_DEVICE_ID = 0x1110"
definition IVSHMEM_CLASS :: "8 word" where "IVSHMEM_CLASS = 0x05"
definition IVSHMEM_REV :: "16 word" where "IVSHMEM_REV = 0x01"

definition IVSHMEM_REG_SIZE :: u64 where "IVSHMEM_REG_SIZE = 0x100"
definition IVSHMEM_IRQ_MASK_REG :: u64 where "IVSHMEM_IRQ_MASK_REG = 0x00"
definition IVSHMEM_IRQ_STA_REG :: u64 where "IVSHMEM_IRQ_STA_REG = 0x04"
definition IVSHMEM_IV_POS_REG :: u64 where "IVSHMEM_IV_POS_REG = 0x08"
definition IVSHMEM_DOORBELL_REG :: u64 where "IVSHMEM_DOORBELL_REG = 0x0c"

subsection \<open>The device structure (lines 65-71)\<close>

text \<open>
  \<open>struct pci_ivshmem_vdev\<close>. The back pointer \<open>dev\<close> to the framework's device is
  written once by init and never read in this file; it is left out. The other fields keep
  their names behind the prefix \<open>shm_\<close>.
\<close>

record pci_ivshmem_vdev =
  shm_name :: "string option"
  shm_fd :: int
  shm_addr :: u64
  shm_size :: u32

text \<open>What \<open>calloc\<close> returns: every field zero.\<close>

definition calloc_vdev :: pci_ivshmem_vdev where
  "calloc_vdev = \<lparr>shm_name = None, shm_fd = 0, shm_addr = 0, shm_size = 0\<rparr>"

text \<open>
  Of the framework's \<open>struct pci_vdev\<close> this file touches one field directly, \<open>arg\<close>,
  the pointer to the structure above (\<open>None\<close> is \<open>NULL\<close>); the configuration space and
  the BARs are reached through calls of the framework only.
\<close>

record pci_vdev =
  arg :: "pci_ivshmem_vdev option"

subsection \<open>The host: calls to the collaborators, and the log\<close>

text \<open>
  Everything the file does outside its own structures is a call to the C library, the
  kernel, the PCI framework or the guest-memory installer. The model records each such
  call, in order, in \<open>calls\<close>, and each log line in \<open>msgs\<close>; what a call returns is
  given by an environment (below), so that every theorem quantified over the environment
  holds for every answer the collaborators can give.
\<close>

datatype oflag =
    O_CREAT_EXCL_RDWR  \<comment> \<open>\<open>O_CREAT | O_EXCL | O_RDWR\<close>, line 82\<close>
  | O_RDWR_ONLY        \<comment> \<open>\<open>O_RDWR\<close>, line 86\<close>

datatype errno = EEXIST | ENOENT | EINVAL | EACCES | EMFILE | ENOMEM

datatype cfg_reg = PCIR_VENDOR | PCIR_DEVICE | PCIR_REVID | PCIR_CLASS | PCIR_BAR int

datatype pcibar_type = PCIBAR_MEM32 | PCIBAR_MEM64

datatype call =
    Shm_open string oflag
  | Ftruncate int u32
  | Fstat int
  | Mmap u32 int
  | Vm_map_memseg_vma u32 u64 u64
  | Munmap u64 u32
  | Close int
  | Shm_unlink string
  | Pci_set_cfgdata16 cfg_reg "16 word"
  | Pci_set_cfgdata8 cfg_reg "8 word"
  | Pci_emul_alloc_bar int pcibar_type u64

datatype log_msg =
    Dbg_write int u64 u64          \<comment> \<open>line 137: baridx, offset, value\<close>
  | Warn_doorbell u64 u64          \<comment> \<open>line 150: vectors, peer id\<close>
  | Dbg_invalid_register u64       \<comment> \<open>lines 154, 188\<close>
  | Dbg_read int u64 int           \<comment> \<open>line 167: baridx, offset, size\<close>
  | Warn_shm_status string errno   \<comment> \<open>line 89\<close>
  | Warn_resize u32                \<comment> \<open>line 95\<close>
  | Warn_size_different u32        \<comment> \<open>line 100\<close>
  | Dbg_shm_configuration u64 u64 u32  \<comment> \<open>line 108: vma, bar, size\<close>
  | Warn_map_failed                \<comment> \<open>line 112\<close>
  | Warn_no_memory_name            \<comment> \<open>line 118\<close>
  | Warn_no_memory_strdup          \<comment> \<open>line 220\<close>
  | Warn_size_not_set              \<comment> \<open>line 225\<close>
  | Warn_size_incorrect            \<comment> \<open>line 229\<close>
  | Warn_invalid_size u32          \<comment> \<open>line 234\<close>
  | Warn_alloc_failed              \<comment> \<open>line 241\<close>
  | Warn_invalid_instance          \<comment> \<open>line 288\<close>

record host =
  calls :: "call list"
  msgs :: "log_msg list"

definition call :: "call \<Rightarrow> host \<Rightarrow> host" where
  "call c ctx = ctx\<lparr>calls := calls ctx @ [c]\<rparr>"

definition emit :: "log_msg \<Rightarrow> host \<Rightarrow> host" where
  "emit m ctx = ctx\<lparr>msgs := msgs ctx @ [m]\<rparr>"

subsection \<open>The register file: \<open>pci_ivshmem_write\<close> and \<open>pci_ivshmem_read\<close>\<close>

text \<open>
  Lines 133-159. The function returns nothing and assigns nothing: the host and the
  device come back as they went in, but for the log.
\<close>

definition pci_ivshmem_write ::
  "host \<Rightarrow> pci_vdev \<Rightarrow> int \<Rightarrow> u64 \<Rightarrow> int \<Rightarrow> u64 \<Rightarrow> host \<times> pci_vdev" where
  "pci_ivshmem_write ctx dev baridx offset sz val =
     (let ctx = emit (Dbg_write baridx offset val) ctx in
      if baridx = IVSHMEM_MMIO_BAR then
        (if offset = IVSHMEM_IRQ_MASK_REG \<or> offset = IVSHMEM_IRQ_STA_REG then (ctx, dev)
         else if offset = IVSHMEM_DOORBELL_REG then
           (emit (Warn_doorbell (val AND 0xff) (drop_bit 16 val AND 0xff)) ctx, dev)
         else (emit (Dbg_invalid_register offset) ctx, dev))
      else (ctx, dev))"

text \<open>
  Lines 161-207. \<open>uint64_t val = ~0\<close> is the all-ones word \<open>- 1\<close>; the first
  \<open>switch\<close> picks the register value, the second masks it by the access width and
  has no \<open>default\<close>.
\<close>

definition pci_ivshmem_read ::
  "host \<Rightarrow> pci_vdev \<Rightarrow> int \<Rightarrow> u64 \<Rightarrow> int \<Rightarrow> u64 \<times> host \<times> pci_vdev" where
  "pci_ivshmem_read ctx dev baridx offset sz =
     (let val = (- 1 :: u64);
          ctx = emit (Dbg_read baridx offset sz) ctx;
          (val, ctx) =
            (if baridx = IVSHMEM_MMIO_BAR then
               (if offset = IVSHMEM_IRQ_MASK_REG \<or> offset = IVSHMEM_IRQ_STA_REG then (0, ctx)
                else if offset = IVSHMEM_IV_POS_REG then (0, ctx)
                else (val, emit (Dbg_invalid_register offset) ctx))
             else (val, ctx));
          val =
            (if sz = 1 then val AND 0xFF
             else if sz = 2 then val AND 0xFFFF
             else if sz = 4 then val AND 0xFFFFFFFF
             else val)
      in (val, ctx, dev))"

text \<open>A guest issuing a sequence of BAR writes (BAR index, offset, width, value), in order.\<close>

fun guest_writes :: "(int \<times> u64 \<times> int \<times> u64) list \<Rightarrow> host \<Rightarrow> pci_vdev \<Rightarrow> host \<times> pci_vdev" where
  "guest_writes [] ctx dev = (ctx, dev)"
| "guest_writes ((baridx, offset, sz, val) # ws) ctx dev =
     (case pci_ivshmem_write ctx dev baridx offset sz val of
        (ctx', dev') \<Rightarrow> guest_writes ws ctx' dev')"

text \<open>
  The doorbell decode as the specification words it: the low byte is the vector, the
  next byte (bits 8 to 15) the peer identifier. Used only to compare with the code.
\<close>

definition spec_doorbell_vector :: "u64 \<Rightarrow> u64" where
  "spec_doorbell_vector val = val AND 0xff"

definition spec_doorbell_peer :: "u64 \<Rightarrow> u64" where
  "spec_doorbell_peer val = drop_bit 8 val AND 0xff"

subsection \<open>The environment: what the collaborators answer\<close>

text \<open>
  One field per library, kernel or framework function whose result the code reads; the
  arguments are the ones the code passes. \<open>shm_open\<close> returns the descriptor (or -1)
  and the \<open>errno\<close> left behind; \<open>fstat\<close> the return code and \<open>st.st_size\<close>;
  \<open>mmap\<close> the address, \<open>MAP_FAILED\<close> on failure; \<open>strdup_ok\<close> and \<open>calloc_ok\<close>
  say whether the allocation succeeds.

  The functions of the repository that live in other files are parameters in the same
  way: \<open>vm_map_memseg_vma\<close> (the installer into the guest's physical range),
  \<open>dm_strtoui\<close> (dm_string.c; \<open>None\<close> is a non-zero return, \<open>Some n\<close> the value
  stored), \<open>pci_get_cfgdata32\<close> (the framework's configuration space after the BARs were
  allocated) and the mask \<open>PCIM_BAR_MEM_BASE\<close> of the framework's header.
\<close>

record env =
  shm_open :: "string \<Rightarrow> oflag \<Rightarrow> int \<times> errno"
  ftruncate :: "int \<Rightarrow> u32 \<Rightarrow> int"
  fstat :: "int \<Rightarrow> int \<times> int"
  mmap :: "u32 \<Rightarrow> int \<Rightarrow> u64"
  vm_map_memseg_vma :: "u32 \<Rightarrow> u64 \<Rightarrow> u64 \<Rightarrow> int"
  strdup_ok :: "string \<Rightarrow> bool"
  calloc_ok :: bool
  dm_strtoui :: "string option \<Rightarrow> u32 option"
  pci_get_cfgdata32 :: "cfg_reg \<Rightarrow> u32"
  PCIM_BAR_MEM_BASE :: u64

definition MAP_FAILED :: u64 where
  "MAP_FAILED = - 1"

definition strdup :: "env \<Rightarrow> string \<Rightarrow> string option" where
  "strdup e s = (if strdup_ok e s then Some s else None)"

text \<open>
  \<open>strsep(&tmp, delim)\<close> with a one-character delimiter: the token up to the first
  delimiter, and the rest after it, \<open>NULL\<close> when there was no delimiter. On \<open>NULL\<close> it
  returns \<open>NULL\<close>.
\<close>

fun strsep :: "string option \<Rightarrow> char \<Rightarrow> string option \<times> string option" where
  "strsep None d = (None, None)"
| "strsep (Some s) d =
     (Some (takeWhile (\<lambda>c. c \<noteq> d) s),
      if d \<in> set s then Some (tl (dropWhile (\<lambda>c. c \<noteq> d) s)) else None)"

subsection \<open>Acquiring the region: \<open>create_shared_memory\<close>\<close>

text \<open>
  The label \<open>err\<close> (lines 125-130): unmap when \<open>addr\<close> is not \<open>NULL\<close>, close when
  \<open>fd > 0\<close>, return -1.
\<close>

definition err_exit :: "host \<Rightarrow> u64 \<Rightarrow> u32 \<Rightarrow> int \<Rightarrow> host" where
  "err_exit ctx addr sz fd =
     (let ctx = (if addr \<noteq> 0 then call (Munmap addr sz) ctx else ctx);
          ctx = (if fd > 0 then call (Close fd) ctx else ctx)
      in ctx)"

text \<open>
  Lines 73-131. \<open>retry\<close> is the \<open>else if\<close> of line 85. \<open>st.st_size != size\<close> compares an
  \<open>off_t\<close> with the \<open>uint32_t\<close> converted to it. In line 110 the installer is called
  only when \<open>addr\<close> is not \<open>NULL\<close>. The structure is assigned in lines 116 and 121-123
  only; line 116 stores the result of \<open>strdup\<close> before it is tested.
\<close>

definition create_shared_memory ::
  "env \<Rightarrow> host \<Rightarrow> pci_ivshmem_vdev \<Rightarrow> string \<Rightarrow> u32 \<Rightarrow> u64 \<Rightarrow> int \<times> host \<times> pci_ivshmem_vdev" where
  "create_shared_memory e ctx vdev name sz bar_addr =
     (let (fd0, errno0) = shm_open e name O_CREAT_EXCL_RDWR;
          ctx = call (Shm_open name O_CREAT_EXCL_RDWR) ctx;
          is_shm_creator = (fd0 > 0);
          retry = (\<not> fd0 > 0 \<and> fd0 < 0 \<and> errno0 = EEXIST);
          (fd, errno) = (if retry then shm_open e name O_RDWR_ONLY else (fd0, errno0));
          ctx = (if retry then call (Shm_open name O_RDWR_ONLY) ctx else ctx)
      in
      if fd < 0 then
        (- 1, err_exit (emit (Warn_shm_status name errno) ctx) 0 sz fd, vdev)
      else if is_shm_creator \<and> ftruncate e fd sz < 0 then
        (- 1, err_exit (emit (Warn_resize sz) (call (Ftruncate fd sz) ctx)) 0 sz fd, vdev)
      else if \<not> is_shm_creator \<and> (fst (fstat e fd) < 0 \<or> snd (fstat e fd) \<noteq> uint sz) then
        (- 1, err_exit (emit (Warn_size_different sz) (call (Fstat fd) ctx)) 0 sz fd, vdev)
      else
        (let ctx = (if is_shm_creator then call (Ftruncate fd sz) ctx else call (Fstat fd) ctx);
             addr = mmap e sz fd;
             ctx = emit (Dbg_shm_configuration addr bar_addr sz) (call (Mmap sz fd) ctx);
             ctx = (if addr \<noteq> 0 then call (Vm_map_memseg_vma sz bar_addr addr) ctx else ctx)
         in
         if addr = 0 \<or> vm_map_memseg_vma e sz bar_addr addr < 0 then
           (- 1, err_exit (emit Warn_map_failed ctx) addr sz fd, vdev)
         else
           (case strdup e name of
              None \<Rightarrow>
                (- 1, err_exit (emit Warn_no_memory_name ctx) addr sz fd,
                 vdev\<lparr>shm_name := None\<rparr>)
            | Some n \<Rightarrow>
                (0, ctx,
                 vdev\<lparr>shm_name := Some n, shm_fd := fd, shm_addr := addr, shm_size := sz\<rparr>))))"

subsection \<open>The lifecycle: \<open>pci_ivshmem_init\<close> and \<open>pci_ivshmem_deinit\<close>\<close>

text \<open>Lines 248-255: the identity in configuration space and the two BARs.\<close>

definition init_config_space :: "host \<Rightarrow> u32 \<Rightarrow> host" where
  "init_config_space ctx sz =
     (let ctx = call (Pci_set_cfgdata16 PCIR_VENDOR IVSHMEM_VENDOR_ID) ctx;
          ctx = call (Pci_set_cfgdata16 PCIR_DEVICE IVSHMEM_DEVICE_ID) ctx;
          ctx = call (Pci_set_cfgdata16 PCIR_REVID IVSHMEM_REV) ctx;
          ctx = call (Pci_set_cfgdata8 PCIR_CLASS IVSHMEM_CLASS) ctx;
          ctx = call (Pci_emul_alloc_bar IVSHMEM_MMIO_BAR PCIBAR_MEM32 IVSHMEM_REG_SIZE) ctx;
          ctx = call (Pci_emul_alloc_bar IVSHMEM_MEM_BAR PCIBAR_MEM64 (ucast sz)) ctx
      in ctx)"

text \<open>Lines 257-259: the 64-bit base address of the memory BAR.\<close>

definition mem_bar_addr :: "env \<Rightarrow> u64" where
  "mem_bar_addr e =
     (let addr = (ucast (pci_get_cfgdata32 e (PCIR_BAR IVSHMEM_MEM_BAR)) :: u64);
          addr = addr OR push_bit 32 (ucast (pci_get_cfgdata32 e (PCIR_BAR (IVSHMEM_MEM_BAR + 1))) :: u64);
          addr = addr AND PCIM_BAR_MEM_BASE e
      in addr)"

text \<open>
  Lines 209-279. Before \<open>calloc\<close> the label \<open>err\<close> finds \<open>ivshmem_vdev\<close> \<open>NULL\<close> and
  leaves \<open>dev->arg\<close> alone; after it, \<open>err\<close> frees the structure and sets \<open>dev->arg\<close> to
  \<open>NULL\<close>. The heap itself (\<open>free\<close>) is not modelled.
\<close>

definition pci_ivshmem_init :: "env \<Rightarrow> host \<Rightarrow> pci_vdev \<Rightarrow> string \<Rightarrow> int \<times> host \<times> pci_vdev" where
  "pci_ivshmem_init e ctx dev opts =
     (case strdup e opts of
        None \<Rightarrow> (- 1, emit Warn_no_memory_strdup ctx, dev)
      | Some orig \<Rightarrow>
         (let (name, tmp) = strsep (Some orig) (CHR '','') in
          case name of
            None \<Rightarrow> (- 1, emit Warn_size_not_set ctx, dev)
          | Some name \<Rightarrow>
             (case dm_strtoui e tmp of
                None \<Rightarrow> (- 1, emit Warn_size_incorrect ctx, dev)
              | Some sz \<Rightarrow>
                 if sz < 4096 \<or> sz > 128 * 1024 * 1024 \<or> (sz AND (sz - 1)) \<noteq> 0 then
                   (- 1, emit (Warn_invalid_size sz) ctx, dev)
                 else if \<not> calloc_ok e then
                   (- 1, emit Warn_alloc_failed ctx, dev)
                 else
                   (let ivshmem_vdev = calloc_vdev;
                        ctx = init_config_space ctx sz;
                        addr = mem_bar_addr e
                    in
                    case create_shared_memory e ctx ivshmem_vdev name sz addr of
                      (r, ctx, ivshmem_vdev) \<Rightarrow>
                        if r < 0 then (- 1, ctx, dev\<lparr>arg := None\<rparr>)
                        else (0, ctx, dev\<lparr>arg := Some ivshmem_vdev\<rparr>)))))"

text \<open>
  Lines 281-306. The results of \<open>munmap\<close>, \<open>close\<close> and \<open>shm_unlink\<close> are not read, so
  the function needs no environment.
\<close>

definition pci_ivshmem_deinit :: "host \<Rightarrow> pci_vdev \<Rightarrow> host \<times> pci_vdev" where
  "pci_ivshmem_deinit ctx dev =
     (case arg dev of
        None \<Rightarrow> (emit Warn_invalid_instance ctx, dev)
      | Some vdev \<Rightarrow>
         (let ctx = (if shm_addr vdev \<noteq> 0 \<and> shm_size vdev \<noteq> 0
                     then call (Munmap (shm_addr vdev) (shm_size vdev)) ctx else ctx);
              ctx = (if shm_fd vdev > 0 then call (Close (shm_fd vdev)) ctx else ctx);
              ctx = (case shm_name vdev of
                       Some n \<Rightarrow> call (Shm_unlink n) ctx
                     | None \<Rightarrow> ctx)
          in (ctx, dev\<lparr>arg := None\<rparr>)))"

text \<open>
  The descriptor the function works with after lines 82-86: the one of the exclusive
  create, or of the plain open when the create found the name taken.
\<close>

definition acquired_fd :: "env \<Rightarrow> string \<Rightarrow> int" where
  "acquired_fd e name =
     (let (fd0, errno0) = shm_open e name O_CREAT_EXCL_RDWR in
      if \<not> fd0 > 0 \<and> fd0 < 0 \<and> errno0 = EEXIST then fst (shm_open e name O_RDWR_ONLY)
      else fd0)"

subsection \<open>Concrete environments\<close>

text \<open>
  A host where every call succeeds and the name is free, so that the device creates the
  object: descriptor 3, a mapping at \<open>0x7f0000000000\<close>, the memory BAR at
  \<open>0xc0000000\<close>. The C library refuses the empty name with \<open>EINVAL\<close>. The numeric
  parser is given by its answers on the two size fields used below.
\<close>

definition env_ok :: env where
  "env_ok =
     \<lparr>shm_open = (\<lambda>name flags. if name = [] then (- 1, EINVAL)
                    else if flags = O_CREAT_EXCL_RDWR then (3, ENOENT) else (- 1, ENOENT)),
      ftruncate = (\<lambda>fd sz. 0),
      fstat = (\<lambda>fd. (0, 4096)),
      mmap = (\<lambda>sz fd. 0x7f0000000000),
      vm_map_memseg_vma = (\<lambda>sz gpa vma. 0),
      strdup_ok = (\<lambda>s. True),
      calloc_ok = True,
      dm_strtoui = (\<lambda>s. if s = Some ''4096'' then Some 4096
                        else if s = Some ''5000'' then Some 5000 else None),
      pci_get_cfgdata32 = (\<lambda>r. if r = PCIR_BAR 2 then 0xc000000c else 0),
      PCIM_BAR_MEM_BASE = 0xfffffffffffffff0\<rparr>"

text \<open>The name exists already (another device created it, 4096 bytes): descriptor 5.\<close>

definition env_joiner :: env where
  "env_joiner =
     env_ok\<lparr>shm_open := (\<lambda>name flags. if flags = O_CREAT_EXCL_RDWR then (- 1, EEXIST)
                                      else (5, EEXIST))\<rparr>"

text \<open>The existing object has another size than the one requested.\<close>

definition env_joiner_mismatch :: env where
  "env_joiner_mismatch = env_joiner\<lparr>fstat := (\<lambda>fd. (0, 8192))\<rparr>"

text \<open>The creator cannot resize the object.\<close>

definition env_resize_fails :: env where
  "env_resize_fails = env_ok\<lparr>ftruncate := (\<lambda>fd sz. - 1)\<rparr>"

text \<open>
  The process runs with descriptor 0 closed, so the exclusive create returns 0, the
  lowest free descriptor; the new object is empty.
\<close>

definition env_fd0 :: env where
  "env_fd0 = env_ok\<lparr>shm_open := (\<lambda>name flags. (0, ENOENT)), fstat := (\<lambda>fd. (0, 0))\<rparr>"

text \<open>\<open>mmap\<close> fails; the installer refuses the address it is then handed.\<close>

definition env_mmap_fails :: env where
  "env_mmap_fails =
     env_ok\<lparr>mmap := (\<lambda>sz fd. MAP_FAILED),
            vm_map_memseg_vma := (\<lambda>sz gpa vma. if vma = MAP_FAILED then - 1 else 0)\<rparr>"

definition host0 :: host where
  "host0 = \<lparr>calls = [], msgs = []\<rparr>"

definition dev0 :: pci_vdev where
  "dev0 = \<lparr>arg = None\<rparr>"

section \<open>Properties\<close>

subsection \<open>The register file\<close>

lemma guest_writes_calls: "calls (fst (guest_writes ws ctx dev)) = calls ctx"
  by (induction ws arbitrary: ctx)
     (auto simp: pci_ivshmem_write_def Let_def emit_def split: prod.splits)

lemma guest_writes_dev: "snd (guest_writes ws ctx dev) = dev"
  by (induction ws arbitrary: ctx)
     (auto simp: pci_ivshmem_write_def Let_def split: prod.splits)

lemma low_byte_bits: "bit ((w :: u64) AND 0xff) n \<longleftrightarrow> n < 8 \<and> bit w n"
proof -
  have m: "(0xff :: u64) = mask 8" by (simp add: mask_eq_exp_minus_1)
  have "bit (w AND mask 8) n \<longleftrightarrow> n < 8 \<and> bit w n"
    unfolding bit_and_iff bit_mask_iff by (auto dest: bit_imp_le_length)
  then show ?thesis by (simp only: m)
qed

text \<open>
  C3, as the code has it. A write of any value, with any width, to the doorbell offset
  \<open>0x0C\<close> of the register BAR adds two lines to the log and does nothing else: no
  collaborator is called and the device structure is unchanged. The warning carries
  the vector, bits 0 to 7 of the value, and the peer identifier, which the code takes
  from bits 16 to 23 (\<open>(value >> 16) & 0xff\<close>, line 151), not from bits 8 to 15.
\<close>

theorem doorbell_write_logged:
  "pci_ivshmem_write ctx dev IVSHMEM_MMIO_BAR IVSHMEM_DOORBELL_REG sz val =
     (ctx\<lparr>msgs := msgs ctx @
              [Dbg_write IVSHMEM_MMIO_BAR IVSHMEM_DOORBELL_REG val,
               Warn_doorbell (val AND 0xff) (drop_bit 16 val AND 0xff)]\<rparr>, dev)
   \<and> (\<forall>n. bit (val AND 0xff) n \<longleftrightarrow> n < 8 \<and> bit val n)
   \<and> (\<forall>n. bit (drop_bit 16 val AND 0xff) n \<longleftrightarrow> n < 8 \<and> bit val (16 + n))"
  by (simp add: pci_ivshmem_write_def Let_def emit_def low_byte_bits bit_drop_bit_eq
        IVSHMEM_MMIO_BAR_def IVSHMEM_IRQ_MASK_REG_def IVSHMEM_IRQ_STA_REG_def
        IVSHMEM_DOORBELL_REG_def)

text \<open>
  C3, as the claim words it, fails: for the value \<open>0x000100FF\<close> the code logs vector
  \<open>0xFF\<close> and peer 1, while bits 8 to 15 of the value are 0.
\<close>

theorem doorbell_peer_counterexample:
  "msgs (fst (pci_ivshmem_write host0 dev0 IVSHMEM_MMIO_BAR IVSHMEM_DOORBELL_REG 4 0x100ff)) =
     [Dbg_write 0 0x0c 0x100ff, Warn_doorbell 0xff 1]
   \<and> spec_doorbell_vector 0x100ff = 0xff
   \<and> spec_doorbell_peer 0x100ff = 0
   \<and> Warn_doorbell (spec_doorbell_vector 0x100ff) (spec_doorbell_peer 0x100ff) \<notin>
       set (msgs (fst (pci_ivshmem_write host0 dev0 IVSHMEM_MMIO_BAR IVSHMEM_DOORBELL_REG 4
                         0x100ff)))"
  by (simp add: pci_ivshmem_write_def Let_def emit_def host0_def
        IVSHMEM_MMIO_BAR_def IVSHMEM_IRQ_MASK_REG_def IVSHMEM_IRQ_STA_REG_def
        IVSHMEM_DOORBELL_REG_def spec_doorbell_vector_def spec_doorbell_peer_def)

text \<open>
  C6. A read of the register BAR at offset \<open>0x00\<close>, \<open>0x04\<close> or \<open>0x08\<close> with width 1,
  2 or 4 returns 0, whatever writes the guest issued before.
\<close>

theorem read_defined_registers_zero:
  assumes "offset = IVSHMEM_IRQ_MASK_REG \<or> offset = IVSHMEM_IRQ_STA_REG \<or>
           offset = IVSHMEM_IV_POS_REG"
      and "sz = 1 \<or> sz = 2 \<or> sz = 4"
  shows "fst (pci_ivshmem_read (fst (guest_writes ws ctx dev)) (snd (guest_writes ws ctx dev))
            IVSHMEM_MMIO_BAR offset sz) = 0"
  using assms by (auto simp: pci_ivshmem_read_def Let_def)

theorem read_defined_registers_zero_witness:
  "fst (pci_ivshmem_read
          (fst (guest_writes [(0, 0x0c, 4, 0x100ff), (0, 0x00, 4, 0xffffffff)] host0 dev0))
          (snd (guest_writes [(0, 0x0c, 4, 0x100ff), (0, 0x00, 4, 0xffffffff)] host0 dev0))
          IVSHMEM_MMIO_BAR 0x08 4) = 0"
  using read_defined_registers_zero
          [of "0x08" 4 "[(0, 0x0c, 4, 0x100ff), (0, 0x00, 4, 0xffffffff)]" host0 dev0]
  by (simp add: IVSHMEM_MMIO_BAR_def IVSHMEM_IRQ_MASK_REG_def IVSHMEM_IRQ_STA_REG_def
        IVSHMEM_IV_POS_REG_def IVSHMEM_DOORBELL_REG_def)

text \<open>
  C7. A read of the register BAR at any other offset returns all-ones masked to the
  width: \<open>0xFF\<close>, \<open>0xFFFF\<close>, \<open>0xFFFFFFFF\<close> for widths 1, 2, 4. The function is total
  (there is no failing branch), calls no collaborator and leaves the device structure
  as it was; two debug lines are all it adds.
\<close>

theorem read_reserved_register:
  assumes "offset \<noteq> IVSHMEM_IRQ_MASK_REG" and "offset \<noteq> IVSHMEM_IRQ_STA_REG"
      and "offset \<noteq> IVSHMEM_IV_POS_REG"
  shows "pci_ivshmem_read ctx dev IVSHMEM_MMIO_BAR offset 1 =
           (0xFF,
            ctx\<lparr>msgs := msgs ctx @ [Dbg_read IVSHMEM_MMIO_BAR offset 1,
                                      Dbg_invalid_register offset]\<rparr>, dev)
       \<and> pci_ivshmem_read ctx dev IVSHMEM_MMIO_BAR offset 2 =
           (0xFFFF,
            ctx\<lparr>msgs := msgs ctx @ [Dbg_read IVSHMEM_MMIO_BAR offset 2,
                                      Dbg_invalid_register offset]\<rparr>, dev)
       \<and> pci_ivshmem_read ctx dev IVSHMEM_MMIO_BAR offset 4 =
           (0xFFFFFFFF,
            ctx\<lparr>msgs := msgs ctx @ [Dbg_read IVSHMEM_MMIO_BAR offset 4,
                                      Dbg_invalid_register offset]\<rparr>, dev)"
  using assms by (simp add: pci_ivshmem_read_def Let_def emit_def)

theorem read_reserved_register_witness:
  "pci_ivshmem_read host0 dev0 IVSHMEM_MMIO_BAR 0x20 2 =
     (0xFFFF, \<lparr>calls = [], msgs = [Dbg_read 0 0x20 2, Dbg_invalid_register 0x20]\<rparr>, dev0)"
  using read_reserved_register [of "0x20" host0 dev0]
  by (simp add: IVSHMEM_MMIO_BAR_def IVSHMEM_IRQ_MASK_REG_def IVSHMEM_IRQ_STA_REG_def
        IVSHMEM_IV_POS_REG_def IVSHMEM_DOORBELL_REG_def host0_def)

text \<open>
  C9. With a BAR index other than the register BAR, a read returns all-ones masked to
  the width (the offset is not looked at), and a write does nothing: the one line it
  logs is the one every write logs, without any register decode.
\<close>

theorem other_bar_access:
  assumes "baridx \<noteq> IVSHMEM_MMIO_BAR"
  shows "pci_ivshmem_read ctx dev baridx offset sz =
           (if sz = 1 then 0xFF else if sz = 2 then 0xFFFF else if sz = 4 then 0xFFFFFFFF
            else 0xFFFFFFFFFFFFFFFF,
            ctx\<lparr>msgs := msgs ctx @ [Dbg_read baridx offset sz]\<rparr>, dev)
       \<and> pci_ivshmem_write ctx dev baridx offset sz val =
           (ctx\<lparr>msgs := msgs ctx @ [Dbg_write baridx offset val]\<rparr>, dev)"
  using assms by (simp add: pci_ivshmem_read_def pci_ivshmem_write_def Let_def emit_def)

theorem other_bar_access_witness:
  "pci_ivshmem_read host0 dev0 2 0x0c 4 =
     (0xFFFFFFFF, \<lparr>calls = [], msgs = [Dbg_read 2 0x0c 4]\<rparr>, dev0)
   \<and> pci_ivshmem_write host0 dev0 2 0x0c 4 0x100ff =
     (\<lparr>calls = [], msgs = [Dbg_write 2 0x0c 0x100ff]\<rparr>, dev0)"
  using other_bar_access [of 2 host0 dev0 "0x0c" 4 "0x100ff"]
  by (simp add: IVSHMEM_MMIO_BAR_def IVSHMEM_IRQ_MASK_REG_def IVSHMEM_IRQ_STA_REG_def
        IVSHMEM_IV_POS_REG_def IVSHMEM_DOORBELL_REG_def host0_def)

text \<open>
  C10. With a width other than 1, 2 or 4 the value is returned unmasked: 0 for the
  three defined registers of the register BAR, the full 64-bit all-ones word anywhere
  else, as for width 8 at a reserved offset.
\<close>

theorem read_other_width_unmasked:
  assumes "sz \<noteq> 1" and "sz \<noteq> 2" and "sz \<noteq> 4"
  shows "fst (pci_ivshmem_read ctx dev baridx offset sz) =
           (if baridx = IVSHMEM_MMIO_BAR \<and>
               (offset = IVSHMEM_IRQ_MASK_REG \<or> offset = IVSHMEM_IRQ_STA_REG \<or>
                offset = IVSHMEM_IV_POS_REG)
            then 0 else 0xFFFFFFFFFFFFFFFF)"
  using assms by (simp add: pci_ivshmem_read_def Let_def)

theorem read_other_width_unmasked_witness:
  "fst (pci_ivshmem_read host0 dev0 IVSHMEM_MMIO_BAR 0x20 8) = 0xFFFFFFFFFFFFFFFF"
  using read_other_width_unmasked [of 8 host0 dev0 IVSHMEM_MMIO_BAR "0x20"]
  by (simp add: IVSHMEM_MMIO_BAR_def IVSHMEM_IRQ_MASK_REG_def IVSHMEM_IRQ_STA_REG_def
        IVSHMEM_IV_POS_REG_def IVSHMEM_DOORBELL_REG_def)

subsection \<open>Release\<close>

text \<open>
  C8. \<open>pci_ivshmem_deinit\<close> returns nothing and reads no result of the calls it makes,
  so it cannot fail. It leaves \<open>dev->arg\<close> \<open>NULL\<close>; run again on what it left, it
  only logs a warning: no call is made and the device stays as it is. The calls of the
  first run are the release of the region the device held, if it held one.
\<close>

theorem deinit_idempotent:
  "arg (snd (pci_ivshmem_deinit ctx dev)) = None
   \<and> pci_ivshmem_deinit (fst (pci_ivshmem_deinit ctx dev)) (snd (pci_ivshmem_deinit ctx dev)) =
       ((fst (pci_ivshmem_deinit ctx dev))
          \<lparr>msgs := msgs (fst (pci_ivshmem_deinit ctx dev)) @ [Warn_invalid_instance]\<rparr>,
        snd (pci_ivshmem_deinit ctx dev))
   \<and> calls (fst (pci_ivshmem_deinit ctx dev)) =
       calls ctx @
       (case arg dev of
          None \<Rightarrow> []
        | Some vdev \<Rightarrow>
            (if shm_addr vdev \<noteq> 0 \<and> shm_size vdev \<noteq> 0
             then [Munmap (shm_addr vdev) (shm_size vdev)] else []) @
            (if shm_fd vdev > 0 then [Close (shm_fd vdev)] else []) @
            (case shm_name vdev of Some n \<Rightarrow> [Shm_unlink n] | None \<Rightarrow> []))"
  by (cases "arg dev")
     (auto simp: pci_ivshmem_deinit_def Let_def call_def emit_def split: option.splits)

subsection \<open>Acquire\<close>

text \<open>
  The two paths of lines 93-104, told apart as the code does it (lines 83-86): the
  creator's branch is taken when the exclusive create returned a descriptor above 0, the
  joiner's when it failed with \<open>EEXIST\<close> and the plain open then returned a descriptor.
  \<^item> Creator's branch: the first call after the create is \<open>ftruncate\<close> on that descriptor
    with exactly the requested size; when it fails the function returns -1, having
    closed the descriptor, mapped nothing and left the device structure untouched.
  \<^item> Joiner's branch: the first call after the open is \<open>fstat\<close> on that descriptor; when
    it fails, or reports a size other than the requested one, the function returns -1,
    the device structure is untouched and nothing follows but, at most, the close of
    that descriptor.
\<close>

lemma size_negotiation:
  "(0 < fst (shm_open e name O_CREAT_EXCL_RDWR) \<longrightarrow>
      (\<exists>cs. calls (fst (snd (create_shared_memory e ctx vdev name sz bar_addr))) =
            calls ctx @ [Shm_open name O_CREAT_EXCL_RDWR,
                         Ftruncate (fst (shm_open e name O_CREAT_EXCL_RDWR)) sz] @ cs) \<and>
      (ftruncate e (fst (shm_open e name O_CREAT_EXCL_RDWR)) sz < 0 \<longrightarrow>
         create_shared_memory e ctx vdev name sz bar_addr =
           (- 1,
            ctx\<lparr>calls := calls ctx @ [Shm_open name O_CREAT_EXCL_RDWR,
                                        Ftruncate (fst (shm_open e name O_CREAT_EXCL_RDWR)) sz,
                                        Close (fst (shm_open e name O_CREAT_EXCL_RDWR))],
                 msgs := msgs ctx @ [Warn_resize sz]\<rparr>,
            vdev)))
   \<and> (fst (shm_open e name O_CREAT_EXCL_RDWR) < 0 \<and>
        snd (shm_open e name O_CREAT_EXCL_RDWR) = EEXIST \<and>
        0 \<le> fst (shm_open e name O_RDWR_ONLY) \<longrightarrow>
      (\<exists>cs. calls (fst (snd (create_shared_memory e ctx vdev name sz bar_addr))) =
            calls ctx @ [Shm_open name O_CREAT_EXCL_RDWR, Shm_open name O_RDWR_ONLY,
                         Fstat (fst (shm_open e name O_RDWR_ONLY))] @ cs) \<and>
      (fst (fstat e (fst (shm_open e name O_RDWR_ONLY))) < 0 \<or>
       snd (fstat e (fst (shm_open e name O_RDWR_ONLY))) \<noteq> uint sz \<longrightarrow>
         fst (create_shared_memory e ctx vdev name sz bar_addr) = - 1 \<and>
         snd (snd (create_shared_memory e ctx vdev name sz bar_addr)) = vdev \<and>
         (\<exists>cs. calls (fst (snd (create_shared_memory e ctx vdev name sz bar_addr))) =
               calls ctx @ [Shm_open name O_CREAT_EXCL_RDWR, Shm_open name O_RDWR_ONLY,
                            Fstat (fst (shm_open e name O_RDWR_ONLY))] @ cs \<and>
               set cs \<subseteq> {Close (fst (shm_open e name O_RDWR_ONLY))})))"
  apply (cases "shm_open e name O_CREAT_EXCL_RDWR"; cases "shm_open e name O_RDWR_ONLY")
  apply (auto simp: create_shared_memory_def Let_def call_def emit_def err_exit_def strdup_def
              split: option.splits)
  done

lemma size_negotiation_example:
  "create_shared_memory env_resize_fails host0 calloc_vdev ''shm0'' 4096 0xc0000000 =
     (- 1,
      \<lparr>calls = [Shm_open ''shm0'' O_CREAT_EXCL_RDWR, Ftruncate 3 4096, Close 3],
         msgs = [Warn_resize 4096]\<rparr>,
      calloc_vdev)
   \<and> fst (create_shared_memory env_joiner_mismatch host0 calloc_vdev ''shm0'' 4096 0xc0000000) = - 1
   \<and> snd (snd (create_shared_memory env_joiner_mismatch host0 calloc_vdev ''shm0'' 4096 0xc0000000))
       = calloc_vdev"
proof -
  have c: "shm_open env_resize_fails ''shm0'' O_CREAT_EXCL_RDWR = (3, ENOENT)"
    and f: "ftruncate env_resize_fails 3 4096 = - 1"
    by (simp_all add: env_resize_fails_def env_ok_def)
  have j: "shm_open env_joiner_mismatch ''shm0'' O_CREAT_EXCL_RDWR = (- 1, EEXIST)"
    and k: "shm_open env_joiner_mismatch ''shm0'' O_RDWR_ONLY = (5, EEXIST)"
    and s: "fstat env_joiner_mismatch 5 = (0, 8192)"
    by (simp_all add: env_joiner_mismatch_def env_joiner_def env_ok_def)
  have 1: "create_shared_memory env_resize_fails host0 calloc_vdev ''shm0'' 4096 0xc0000000 =
     (- 1,
      \<lparr>calls = [Shm_open ''shm0'' O_CREAT_EXCL_RDWR, Ftruncate 3 4096, Close 3],
         msgs = [Warn_resize 4096]\<rparr>,
      calloc_vdev)"
    using size_negotiation [of env_resize_fails "''shm0''" host0 calloc_vdev 4096 "0xc0000000"]
    by (simp add: c f host0_def)
  have 2: "fst (create_shared_memory env_joiner_mismatch host0 calloc_vdev ''shm0'' 4096 0xc0000000) = - 1
   \<and> snd (snd (create_shared_memory env_joiner_mismatch host0 calloc_vdev ''shm0'' 4096 0xc0000000))
       = calloc_vdev"
    using size_negotiation [of env_joiner_mismatch "''shm0''" host0 calloc_vdev 4096 "0xc0000000"]
    by (simp add: j k s)
  from 1 2 show ?thesis by simp
qed

text \<open>
  C5 on the code. The exclusive create succeeds and returns descriptor 0: this device
  created the object. Line 83 asks for a descriptor above 0, so \<open>is_shm_creator\<close>
  stays false and line 99 runs the joiner's size check on the new, empty object: the
  object is never resized, \<open>fstat\<close> reports 0 bytes where 4096 were requested, and
  the function returns -1.
\<close>

theorem creator_descriptor_zero_not_resized:
  "shm_open env_fd0 ''shm0'' O_CREAT_EXCL_RDWR = (0, ENOENT)
   \<and> create_shared_memory env_fd0 host0 calloc_vdev ''shm0'' 4096 0xc0000000 =
       (- 1,
        \<lparr>calls = [Shm_open ''shm0'' O_CREAT_EXCL_RDWR, Fstat 0],
           msgs = [Warn_size_different 4096]\<rparr>,
        calloc_vdev)
   \<and> Ftruncate 0 4096 \<notin> set (calls (fst (snd
        (create_shared_memory env_fd0 host0 calloc_vdev ''shm0'' 4096 0xc0000000))))
   \<and> Fstat 0 \<in> set (calls (fst (snd
        (create_shared_memory env_fd0 host0 calloc_vdev ''shm0'' 4096 0xc0000000))))"
  by (simp add: create_shared_memory_def env_fd0_def env_ok_def call_def emit_def
        err_exit_def host0_def)

text \<open>
  The same for every environment: when the exclusive create returns 0 the next call is
  \<open>fstat\<close>, and \<open>ftruncate\<close> is not called at all.
\<close>

lemma descriptor_zero_takes_size_check:
  assumes "fst (shm_open e name O_CREAT_EXCL_RDWR) = 0"
  shows "\<exists>cs. calls (fst (snd (create_shared_memory e ctx vdev name sz bar_addr))) =
            calls ctx @ [Shm_open name O_CREAT_EXCL_RDWR, Fstat 0] @ cs \<and>
            (\<forall>fd n. Ftruncate fd n \<notin> set cs)"
  using assms
  apply (cases "shm_open e name O_CREAT_EXCL_RDWR")
  apply (auto simp: create_shared_memory_def Let_def call_def emit_def err_exit_def strdup_def
              split: option.splits)
  done

text \<open>
  C1 on the code. The exclusive create returns descriptor 0 (the process has it free).
  Line 83 does not take 0 for a created object and line 88 does not take it for a
  failure, so the size check of the joiner runs on the new, empty object and fails;
  at \<open>err\<close>, line 128 closes descriptors above 0 only. The function returns -1 and
  descriptor 0 stays open: the calls are the create and \<open>fstat\<close>, no \<open>close\<close>.
\<close>

theorem acquire_leaks_descriptor_zero:
  "shm_open env_fd0 ''shm0'' O_CREAT_EXCL_RDWR = (0, ENOENT)
   \<and> create_shared_memory env_fd0 host0 calloc_vdev ''shm0'' 4096 0xc0000000 =
       (- 1,
        \<lparr>calls = [Shm_open ''shm0'' O_CREAT_EXCL_RDWR, Fstat 0],
           msgs = [Warn_size_different 4096]\<rparr>,
        calloc_vdev)
   \<and> Close 0 \<notin> set (calls (fst (snd
        (create_shared_memory env_fd0 host0 calloc_vdev ''shm0'' 4096 0xc0000000))))"
  by (simp add: create_shared_memory_def env_fd0_def env_ok_def call_def emit_def
        err_exit_def host0_def)

text \<open>
  With a descriptor above 0 every failing run unwinds: it returns -1, its last call
  closes the descriptor, a mapping whose address is not \<open>NULL\<close> has been unmapped
  before, and no field of the device structure holds a descriptor, an address or a size
  (only \<open>shm_name\<close> may have been assigned \<open>NULL\<close>, line 116).
\<close>

lemma acquire_failure_unwinds:
  assumes "create_shared_memory e ctx vdev name sz bar_addr = (r, ctx', vdev')"
      and "r \<noteq> 0" and "0 < acquired_fd e name"
  shows "r = - 1 \<and> (vdev' = vdev \<or> vdev' = vdev\<lparr>shm_name := None\<rparr>)
       \<and> (\<exists>cs. calls ctx' = calls ctx @ cs @ [Close (acquired_fd e name)] \<and>
            (Mmap sz (acquired_fd e name) \<in> set cs \<and> mmap e sz (acquired_fd e name) \<noteq> 0
               \<longrightarrow> Munmap (mmap e sz (acquired_fd e name)) sz \<in> set cs))"
  using assms
  apply (cases "shm_open e name O_CREAT_EXCL_RDWR"; cases "shm_open e name O_RDWR_ONLY")
  apply (auto simp: create_shared_memory_def acquired_fd_def Let_def call_def
                    emit_def err_exit_def strdup_def
              split: option.splits if_splits)
  done

text \<open>
  A failed \<open>mmap\<close> returns \<open>MAP_FAILED\<close>, which line 110 does not test for: the
  address goes to the installer, and to \<open>munmap\<close> at \<open>err\<close> when the installer
  refuses it.
\<close>

lemma acquire_mmap_failure_reaches_installer:
  "create_shared_memory env_mmap_fails host0 calloc_vdev ''shm0'' 4096 0xc0000000 =
     (- 1,
      \<lparr>calls = [Shm_open ''shm0'' O_CREAT_EXCL_RDWR, Ftruncate 3 4096, Mmap 4096 3,
                Vm_map_memseg_vma 4096 0xc0000000 MAP_FAILED, Munmap MAP_FAILED 4096, Close 3],
         msgs = [Dbg_shm_configuration MAP_FAILED 0xc0000000 4096, Warn_map_failed]\<rparr>,
      calloc_vdev)"
  by (simp add: create_shared_memory_def env_mmap_fails_def env_ok_def call_def emit_def
        err_exit_def host0_def MAP_FAILED_def Let_def)

subsection \<open>Release after acquire\<close>

text \<open>
  C2, as the code has it. Take any region a successful acquire stored, of a size other
  than 0 and with a descriptor above 0. Released by \<open>pci_ivshmem_deinit\<close>, it is
  unmapped (the address \<open>mmap\<close> returned, the size requested), its descriptor (the one
  acquire worked with) is closed, and its name is unlinked: three calls, in this order,
  whether the device created the object or joined it. Nothing in the structure tells
  the two apart.
\<close>

theorem release_after_acquire:
  assumes "create_shared_memory e ctx vdev name sz bar_addr = (0, ctx1, vdev1)"
      and "sz \<noteq> 0" and "0 < shm_fd vdev1"
  shows "pci_ivshmem_deinit ctx1 (dev\<lparr>arg := Some vdev1\<rparr>) =
           (ctx1\<lparr>calls := calls ctx1 @
                    [Munmap (shm_addr vdev1) sz, Close (shm_fd vdev1), Shm_unlink name]\<rparr>,
            dev\<lparr>arg := None\<rparr>)
         \<and> shm_fd vdev1 = acquired_fd e name
         \<and> shm_addr vdev1 = mmap e sz (shm_fd vdev1)
         \<and> Mmap sz (shm_fd vdev1) \<in> set (calls ctx1)"
  using assms
  apply (cases "shm_open e name O_CREAT_EXCL_RDWR"; cases "shm_open e name O_RDWR_ONLY")
  apply (auto simp: create_shared_memory_def pci_ivshmem_deinit_def acquired_fd_def Let_def
                    call_def emit_def err_exit_def strdup_def
              split: option.splits if_splits)
  done

theorem release_after_acquire_witness:
  "pci_ivshmem_deinit
     \<lparr>calls = [Shm_open ''shm0'' O_CREAT_EXCL_RDWR, Shm_open ''shm0'' O_RDWR_ONLY, Fstat 5,
               Mmap 4096 5, Vm_map_memseg_vma 4096 0xc0000000 0x7f0000000000],
        msgs = [Dbg_shm_configuration 0x7f0000000000 0xc0000000 4096]\<rparr>
     \<lparr>arg = Some \<lparr>shm_name = Some ''shm0'', shm_fd = 5, shm_addr = 0x7f0000000000,
                   shm_size = 4096\<rparr>\<rparr> =
     (\<lparr>calls = [Shm_open ''shm0'' O_CREAT_EXCL_RDWR, Shm_open ''shm0'' O_RDWR_ONLY, Fstat 5,
                Mmap 4096 5, Vm_map_memseg_vma 4096 0xc0000000 0x7f0000000000,
                Munmap 0x7f0000000000 4096, Close 5, Shm_unlink ''shm0''],
         msgs = [Dbg_shm_configuration 0x7f0000000000 0xc0000000 4096]\<rparr>,
      \<lparr>arg = None\<rparr>)"
proof -
  have h: "create_shared_memory env_joiner host0 calloc_vdev ''shm0'' 4096 0xc0000000 =
     (0,
      \<lparr>calls = [Shm_open ''shm0'' O_CREAT_EXCL_RDWR, Shm_open ''shm0'' O_RDWR_ONLY, Fstat 5,
               Mmap 4096 5, Vm_map_memseg_vma 4096 0xc0000000 0x7f0000000000],
        msgs = [Dbg_shm_configuration 0x7f0000000000 0xc0000000 4096]\<rparr>,
      \<lparr>shm_name = Some ''shm0'', shm_fd = 5, shm_addr = 0x7f0000000000, shm_size = 4096\<rparr>)"
    by (simp add: create_shared_memory_def strdup_def env_joiner_def env_ok_def Let_def call_def
          emit_def err_exit_def host0_def dev0_def)
  have "(4096 :: u32) \<noteq> 0" by simp
  from release_after_acquire [OF h this, of dev0] show ?thesis
    by (simp add: dev0_def)
qed

text \<open>
  C2, as the claim words it, fails. The name exists, so the device joins the object
  (the exclusive create fails with \<open>EEXIST\<close>); init succeeds; deinit unlinks the name.
\<close>

theorem joiner_unlinks_counterexample:
  "shm_open env_joiner ''shm0'' O_CREAT_EXCL_RDWR = (- 1, EEXIST)
   \<and> pci_ivshmem_init env_joiner host0 dev0 ''shm0,4096'' =
       (0,
        \<lparr>calls = [Pci_set_cfgdata16 PCIR_VENDOR 0x1af4, Pci_set_cfgdata16 PCIR_DEVICE 0x1110,
                  Pci_set_cfgdata16 PCIR_REVID 1, Pci_set_cfgdata8 PCIR_CLASS 5,
                  Pci_emul_alloc_bar 0 PCIBAR_MEM32 0x100, Pci_emul_alloc_bar 2 PCIBAR_MEM64 4096,
                  Shm_open ''shm0'' O_CREAT_EXCL_RDWR, Shm_open ''shm0'' O_RDWR_ONLY, Fstat 5,
                  Mmap 4096 5, Vm_map_memseg_vma 4096 0xc0000000 0x7f0000000000],
           msgs = [Dbg_shm_configuration 0x7f0000000000 0xc0000000 4096]\<rparr>,
        \<lparr>arg = Some \<lparr>shm_name = Some ''shm0'', shm_fd = 5, shm_addr = 0x7f0000000000,
                      shm_size = 4096\<rparr>\<rparr>)
   \<and> Shm_unlink ''shm0'' \<in> set (calls (fst (pci_ivshmem_deinit
          (fst (snd (pci_ivshmem_init env_joiner host0 dev0 ''shm0,4096'')))
          (snd (snd (pci_ivshmem_init env_joiner host0 dev0 ''shm0,4096''))))))"
  by (simp add: pci_ivshmem_init_def create_shared_memory_def pci_ivshmem_deinit_def
        init_config_space_def mem_bar_addr_def calloc_vdev_def strdup_def
        env_joiner_def env_ok_def Let_def call_def emit_def err_exit_def host0_def dev0_def
        IVSHMEM_MMIO_BAR_def IVSHMEM_MEM_BAR_def IVSHMEM_VENDOR_ID_def
        IVSHMEM_DEVICE_ID_def IVSHMEM_CLASS_def IVSHMEM_REV_def IVSHMEM_REG_SIZE_def)

subsection \<open>Initialisation\<close>

text \<open>
  The test \<open>(size & (size - 1)) != 0\<close> of line 233 is the test for a power of two: a
  non-zero word has no bit in common with its predecessor exactly when one bit is set.
\<close>

lemma nat_and_pred_pow2:
  fixes n :: nat
  assumes "0 < n" and "n AND (n - 1) = 0"
  shows "\<exists>k. n = 2 ^ k"
  using assms
proof (induction n rule: less_induct)
  case (less n)
  show ?case
  proof (cases "n = 1")
    case True
    then have "n = 2 ^ 0" by simp
    then show ?thesis by blast
  next
    case False
    with less.prems have n2: "2 \<le> n" by simp
    show ?thesis
    proof (cases "even n")
      case True
      then obtain m where m: "n = 2 * m" by (auto elim: evenE)
      with n2 have mpos: "0 < m" by simp
      have pred: "n - 1 = 2 * (m - 1) + 1" using m mpos by simp
      have "n AND (n - 1) = 2 * (m AND (m - 1))"
        unfolding pred unfolding m
        by (subst and_nat_unfold) (use mpos in simp)
      with less.prems have "m AND (m - 1) = 0" by simp
      moreover have "m < n" using m mpos by simp
      ultimately obtain k where "m = 2 ^ k" using less.IH mpos by blast
      then have "n = 2 ^ Suc k" using m by simp
      then show ?thesis by blast
    next
      case False
      then obtain m where m: "n = 2 * m + 1" by (auto elim: oddE)
      with n2 have mpos: "0 < m" by simp
      have "n AND (n - 1) = 2 * (m AND m)"
        unfolding m
        by (subst and_nat_unfold) (use mpos in simp)
      with less.prems mpos show ?thesis by simp
    qed
  qed
qed

lemma word_and_pred_pow2:
  fixes w :: u32
  assumes "w \<noteq> 0" and "w AND (w - 1) = 0"
  shows "\<exists>k. w = 2 ^ k"
proof -
  have "unat (w AND (w - 1)) = unat w AND unat (w - 1)"
    by (simp add: unsigned_and_eq)
  also have "unat (w - 1) = unat w - 1"
    using assms(1) by (simp add: unat_minus_one)
  finally have "unat w AND (unat w - 1) = 0" using assms(2) by simp
  moreover have "0 < unat w" using assms(1) by (simp add: unat_gt_0)
  ultimately obtain k where "unat w = 2 ^ k" using nat_and_pred_pow2 by blast
  then have "of_nat (unat w) = (of_nat (2 ^ k) :: u32)" by simp
  then have "w = 2 ^ k" by simp
  then show ?thesis by blast
qed

lemma word_pow2_and_pred: "(2 ^ k :: u32) AND (2 ^ k - 1) = 0"
proof -
  have m: "(2 ^ k - 1 :: u32) = mask k" by (simp add: mask_eq_exp_minus_1)
  show ?thesis unfolding m
    by (rule bit_eqI) (auto simp: bit_and_iff bit_mask_iff bit_exp_iff)
qed

lemma size_check_iff:
  fixes sz :: u32
  shows "(sz < 4096 \<or> sz > 128 * 1024 * 1024 \<or> (sz AND (sz - 1)) \<noteq> 0) \<longleftrightarrow>
         (sz < 4096 \<or> 134217728 < sz \<or> (\<forall>k. sz \<noteq> 2 ^ k))"
proof (cases "sz < 4096 \<or> 134217728 < sz")
  case True
  then show ?thesis by auto
next
  case False
  then have nz: "sz \<noteq> 0" by auto
  have "(sz AND (sz - 1)) \<noteq> 0 \<longleftrightarrow> (\<forall>k. sz \<noteq> 2 ^ k)"
  proof
    assume a: "sz AND (sz - 1) \<noteq> 0"
    show "\<forall>k. sz \<noteq> 2 ^ k"
    proof
      fix k
      show "sz \<noteq> 2 ^ k"
      proof
        assume "sz = 2 ^ k"
        with word_pow2_and_pred [of k] a show False by simp
      qed
    qed
  next
    assume b: "\<forall>k. sz \<noteq> 2 ^ k"
    show "sz AND (sz - 1) \<noteq> 0"
    proof
      assume "sz AND (sz - 1) = 0"
      from word_and_pred_pow2 [OF nz this] b show False by blast
    qed
  qed
  with False show ?thesis by simp
qed

lemma not_pow2_5000: "\<forall>k. (5000 :: u32) \<noteq> 2 ^ k"
proof
  fix k
  show "(5000 :: u32) \<noteq> 2 ^ k"
  proof
    assume "(5000 :: u32) = 2 ^ k"
    then have "(5000 :: u32) AND (5000 - 1) = 0"
      using word_pow2_and_pred [of k] by simp
    then show False by simp
  qed
qed

text \<open>
  C4, as the code has it. The name is the text before the first comma, the size field
  the text after it (\<open>NULL\<close> when there is no comma); the size field goes to the
  numeric parser \<open>dm_strtoui\<close>. In this order:
  \<^item> when the copy of the string cannot be allocated, the parser refuses the size
    field, the parsed size is below 4096 or above 134217728, the parsed size is not a
    power of two, or the device structure cannot be allocated, init returns -1 having
    logged one line: no call is made (no configuration write, no BAR, no shared-memory
    object) and the device is as before;
  \<^item> otherwise init writes the identity, allocates both BARs and hands the name, empty
    or not, to \<open>create_shared_memory\<close>: the name is never examined. Init fails exactly
    when that call fails, and then clears \<open>dev->arg\<close>; the calls made stay made.
\<close>

theorem init_validation:
  "pci_ivshmem_init e ctx dev opts =
     (if \<not> strdup_ok e opts then
        (- 1, ctx\<lparr>msgs := msgs ctx @ [Warn_no_memory_strdup]\<rparr>, dev)
      else
        case dm_strtoui e (snd (strsep (Some opts) (CHR '',''))) of
          None \<Rightarrow> (- 1, ctx\<lparr>msgs := msgs ctx @ [Warn_size_incorrect]\<rparr>, dev)
        | Some sz \<Rightarrow>
            if sz < 4096 \<or> 134217728 < sz \<or> (\<forall>k. sz \<noteq> 2 ^ k) then
              (- 1, ctx\<lparr>msgs := msgs ctx @ [Warn_invalid_size sz]\<rparr>, dev)
            else if \<not> calloc_ok e then
              (- 1, ctx\<lparr>msgs := msgs ctx @ [Warn_alloc_failed]\<rparr>, dev)
            else
              case create_shared_memory e (init_config_space ctx sz) calloc_vdev
                     (takeWhile (\<lambda>c. c \<noteq> CHR '','') opts) sz (mem_bar_addr e) of
                (r, ctx', vdev') \<Rightarrow>
                  if r < 0 then (- 1, ctx', dev\<lparr>arg := None\<rparr>)
                  else (0, ctx', dev\<lparr>arg := Some vdev'\<rparr>))"
proof (cases "strdup_ok e opts")
  case False
  then show ?thesis by (simp add: pci_ivshmem_init_def strdup_def emit_def)
next
  case True
  show ?thesis
  proof (cases "dm_strtoui e (snd (strsep (Some opts) (CHR '','')))")
    case None
    with True show ?thesis by (simp add: pci_ivshmem_init_def strdup_def emit_def)
  next
    case (Some sz)
    show ?thesis
    proof (cases "sz < 4096 \<or> 134217728 < sz \<or> (\<forall>k. sz \<noteq> 2 ^ k)")
      case bad: True
      then have "sz < 4096 \<or> sz > 128 * 1024 * 1024 \<or> (sz AND (sz - 1)) \<noteq> 0"
        using size_check_iff [of sz] by blast
      with True Some bad show ?thesis
        by (simp add: pci_ivshmem_init_def strdup_def emit_def)
    next
      case good: False
      then have "\<not> (sz < 4096 \<or> sz > 128 * 1024 * 1024 \<or> (sz AND (sz - 1)) \<noteq> 0)"
        using size_check_iff [of sz] by blast
      with True Some good show ?thesis
        by (auto simp: pci_ivshmem_init_def strdup_def emit_def Let_def)
    qed
  qed
qed

theorem init_validation_witness:
  "pci_ivshmem_init env_ok host0 dev0 ''shm0,5000'' =
     (- 1, \<lparr>calls = [], msgs = [Warn_invalid_size 5000]\<rparr>, dev0)
   \<and> pci_ivshmem_init env_ok host0 dev0 ''shm0'' =
     (- 1, \<lparr>calls = [], msgs = [Warn_size_incorrect]\<rparr>, dev0)
   \<and> pci_ivshmem_init env_ok host0 dev0 '',4096'' =
       (- 1,
        \<lparr>calls = [Pci_set_cfgdata16 PCIR_VENDOR 0x1af4, Pci_set_cfgdata16 PCIR_DEVICE 0x1110,
                  Pci_set_cfgdata16 PCIR_REVID 1, Pci_set_cfgdata8 PCIR_CLASS 5,
                  Pci_emul_alloc_bar 0 PCIBAR_MEM32 0x100, Pci_emul_alloc_bar 2 PCIBAR_MEM64 4096,
                  Shm_open [] O_CREAT_EXCL_RDWR],
           msgs = [Warn_shm_status [] EINVAL]\<rparr>,
        dev0)"
proof (intro conjI)
  have a: "dm_strtoui env_ok (snd (strsep (Some ''shm0,5000'') (CHR '',''))) = Some 5000"
    and s: "strdup_ok env_ok ''shm0,5000''"
    by (simp_all add: env_ok_def)
  have n: "(5000 :: u32) < 4096 \<or> 134217728 < (5000 :: u32) \<or> (\<forall>k. (5000 :: u32) \<noteq> 2 ^ k)"
    using not_pow2_5000 by blast
  show "pci_ivshmem_init env_ok host0 dev0 ''shm0,5000'' =
     (- 1, \<lparr>calls = [], msgs = [Warn_invalid_size 5000]\<rparr>, dev0)"
    unfolding init_validation [of env_ok host0 dev0 "''shm0,5000''"] a
    using s n by (simp add: host0_def)
next
  show "pci_ivshmem_init env_ok host0 dev0 ''shm0'' =
     (- 1, \<lparr>calls = [], msgs = [Warn_size_incorrect]\<rparr>, dev0)"
    unfolding init_validation [of env_ok host0 dev0 "''shm0''"]
    by (simp add: env_ok_def host0_def)
next
  have b: "dm_strtoui env_ok (snd (strsep (Some '',4096'') (CHR '',''))) = Some 4096"
    and s: "strdup_ok env_ok '',4096''" and c: "calloc_ok env_ok"
    by (simp_all add: env_ok_def)
  have "(4096 :: u32) = 2 ^ 12" by simp
  then have "\<exists>k. (4096 :: u32) = 2 ^ k" by (rule exI)
  then have p: "\<not> ((4096 :: u32) < 4096 \<or> 134217728 < (4096 :: u32) \<or>
                   (\<forall>k. (4096 :: u32) \<noteq> 2 ^ k))"
    by simp
  have r: "create_shared_memory env_ok (init_config_space host0 4096) calloc_vdev
             (takeWhile (\<lambda>c. c \<noteq> CHR '','') '',4096'') 4096 (mem_bar_addr env_ok) =
       (- 1,
        \<lparr>calls = [Pci_set_cfgdata16 PCIR_VENDOR 0x1af4, Pci_set_cfgdata16 PCIR_DEVICE 0x1110,
                  Pci_set_cfgdata16 PCIR_REVID 1, Pci_set_cfgdata8 PCIR_CLASS 5,
                  Pci_emul_alloc_bar 0 PCIBAR_MEM32 0x100, Pci_emul_alloc_bar 2 PCIBAR_MEM64 4096,
                  Shm_open [] O_CREAT_EXCL_RDWR],
           msgs = [Warn_shm_status [] EINVAL]\<rparr>,
        calloc_vdev)"
    by (simp add: create_shared_memory_def init_config_space_def mem_bar_addr_def
          env_ok_def Let_def call_def emit_def err_exit_def host0_def
          IVSHMEM_MMIO_BAR_def IVSHMEM_MEM_BAR_def IVSHMEM_VENDOR_ID_def
          IVSHMEM_DEVICE_ID_def IVSHMEM_CLASS_def IVSHMEM_REV_def IVSHMEM_REG_SIZE_def)
  show "pci_ivshmem_init env_ok host0 dev0 '',4096'' =
       (- 1,
        \<lparr>calls = [Pci_set_cfgdata16 PCIR_VENDOR 0x1af4, Pci_set_cfgdata16 PCIR_DEVICE 0x1110,
                  Pci_set_cfgdata16 PCIR_REVID 1, Pci_set_cfgdata8 PCIR_CLASS 5,
                  Pci_emul_alloc_bar 0 PCIBAR_MEM32 0x100, Pci_emul_alloc_bar 2 PCIBAR_MEM64 4096,
                  Shm_open [] O_CREAT_EXCL_RDWR],
           msgs = [Warn_shm_status [] EINVAL]\<rparr>,
        dev0)"
    unfolding init_validation [of env_ok host0 dev0 "'',4096''"] b
    using s c p r by (auto simp: dev0_def)
qed

text \<open>
  C4, as the claim words it, fails at the specification string \<open>,4096\<close>: the name is
  empty, the size valid. Init does not reject it: the identity is written, both BARs
  are allocated and \<open>shm_open\<close> is called with the empty name. The C library refuses
  that name, so init returns -1 after all, but nothing undoes the BAR allocations.
\<close>

theorem init_empty_name_counterexample:
  "fst (strsep (Some '',4096'') (CHR '','')) = Some []
   \<and> pci_ivshmem_init env_ok host0 dev0 '',4096'' =
       (- 1,
        \<lparr>calls = [Pci_set_cfgdata16 PCIR_VENDOR 0x1af4, Pci_set_cfgdata16 PCIR_DEVICE 0x1110,
                  Pci_set_cfgdata16 PCIR_REVID 1, Pci_set_cfgdata8 PCIR_CLASS 5,
                  Pci_emul_alloc_bar 0 PCIBAR_MEM32 0x100, Pci_emul_alloc_bar 2 PCIBAR_MEM64 4096,
                  Shm_open [] O_CREAT_EXCL_RDWR],
           msgs = [Warn_shm_status [] EINVAL]\<rparr>,
        \<lparr>arg = None\<rparr>)
   \<and> Pci_emul_alloc_bar 2 PCIBAR_MEM64 4096 \<in>
       set (calls (fst (snd (pci_ivshmem_init env_ok host0 dev0 '',4096''))))
   \<and> Shm_open [] O_CREAT_EXCL_RDWR \<in>
       set (calls (fst (snd (pci_ivshmem_init env_ok host0 dev0 '',4096''))))"
  by (simp add: pci_ivshmem_init_def create_shared_memory_def
        init_config_space_def mem_bar_addr_def calloc_vdev_def strdup_def
        env_ok_def Let_def call_def emit_def err_exit_def host0_def dev0_def
        IVSHMEM_MMIO_BAR_def IVSHMEM_MEM_BAR_def IVSHMEM_VENDOR_ID_def
        IVSHMEM_DEVICE_ID_def IVSHMEM_CLASS_def IVSHMEM_REV_def IVSHMEM_REG_SIZE_def)

end
